theory Spec2Isabelle
  imports Complex_Main "HOL-Library.Char_ord" "HOL-Library.List_Lexorder"
begin

section \<open>Python values\<close>

text \<open>
  A Python float is modelled as a real number or one of the three special values of
  IEEE arithmetic. Rounding, overflow, underflow and the sign of zero are not modelled:
  the finite part of the arithmetic is exact. An equation between computed numbers is
  therefore one of exact arithmetic, which the source meets up to rounding, and a
  product that is positive here may round down to zero in the source.
\<close>

datatype pyfloat = Fin real | PInf | NInf | NaN

datatype error =
    ZeroDivisionError
  | KeyError string
  | ValueError
  | AssertionError
  | IndexError
  | UnboundLocalError
  | ExternalError string

fun fsgn :: "pyfloat \<Rightarrow> int" where
  "fsgn (Fin a) = (if 0 < a then 1 else if a < 0 then - 1 else 0)"
| "fsgn PInf = 1"
| "fsgn NInf = - 1"
| "fsgn NaN = 0"

definition signed_inf :: "int \<Rightarrow> pyfloat" where
  "signed_inf s = (if 0 < s then PInf else if s < 0 then NInf else NaN)"

fun fmul :: "pyfloat \<Rightarrow> pyfloat \<Rightarrow> pyfloat" where
  "fmul (Fin a) (Fin b) = Fin (a * b)"
| "fmul NaN y = NaN"
| "fmul x NaN = NaN"
| "fmul x y = signed_inf (fsgn x * fsgn y)"

fun fadd :: "pyfloat \<Rightarrow> pyfloat \<Rightarrow> pyfloat" where
  "fadd (Fin a) (Fin b) = Fin (a + b)"
| "fadd NaN y = NaN"
| "fadd x NaN = NaN"
| "fadd PInf NInf = NaN"
| "fadd NInf PInf = NaN"
| "fadd PInf y = PInf"
| "fadd x PInf = PInf"
| "fadd NInf y = NInf"
| "fadd x NInf = NInf"

fun fneg :: "pyfloat \<Rightarrow> pyfloat" where
  "fneg (Fin a) = Fin (- a)"
| "fneg PInf = NInf"
| "fneg NInf = PInf"
| "fneg NaN = NaN"

definition fsub :: "pyfloat \<Rightarrow> pyfloat \<Rightarrow> pyfloat" where
  "fsub x y = fadd x (fneg y)"

text \<open>Python's \<open>/\<close> on floats raises on a zero divisor.\<close>

fun fdiv :: "pyfloat \<Rightarrow> pyfloat \<Rightarrow> error + pyfloat" where
  "fdiv x (Fin b) =
     (if b = 0 then Inl ZeroDivisionError
      else case x of Fin a \<Rightarrow> Inr (Fin (a / b))
                   | NaN \<Rightarrow> Inr NaN
                   | _ \<Rightarrow> Inr (signed_inf (fsgn x * fsgn (Fin b))))"
| "fdiv x NaN = Inr NaN"
| "fdiv (Fin a) y = Inr (Fin 0)"
| "fdiv x y = Inr NaN"

text \<open>\<open>x < y\<close>: every comparison with NaN is false.\<close>

fun fless :: "pyfloat \<Rightarrow> pyfloat \<Rightarrow> bool" where
  "fless (Fin a) (Fin b) = (a < b)"
| "fless NaN y = False"
| "fless x NaN = False"
| "fless x NInf = False"
| "fless PInf y = False"
| "fless x y = True"


text \<open>
  \<open>np.power(b, e)\<close> for an integer base and the negative, non-integral exponents the
  source uses (\<open>-0.5\<close> and \<open>-1.5\<close>): a zero base gives \<open>inf\<close>, a negative base \<open>nan\<close>.
\<close>

definition np_power :: "int \<Rightarrow> real \<Rightarrow> pyfloat" where
  "np_power b e =
     (if 0 < b then Fin (real_of_int b powr e) else if b = 0 then PInf else NaN)"

text \<open>\<open>np.min\<close> of a two-element list: NaN propagates.\<close>

definition np_min2 :: "pyfloat \<Rightarrow> pyfloat \<Rightarrow> pyfloat" where
  "np_min2 x y =
     (if x = NaN \<or> y = NaN then NaN else if fless y x then y else x)"

fun fsum :: "pyfloat list \<Rightarrow> pyfloat" where
  "fsum [] = Fin 0"
| "fsum (x # xs) = fadd x (fsum xs)"

text \<open>\<open>np.mean\<close> of a list: NaN on the empty list, else the sum over the length.\<close>

definition np_mean :: "pyfloat list \<Rightarrow> pyfloat" where
  "np_mean xs =
     (if xs = [] then NaN
      else case fsum xs of Fin s \<Rightarrow> Fin (s / real (length xs)) | v \<Rightarrow> v)"

section \<open>Learning-rate controller (train\_utils.py)\<close>

text \<open>
  A parameter group is a dictionary of named hyperparameters; the optimizer carries its
  class name, which \<open>isinstance(optimizer, torch.optim.Adadelta)\<close> inspects.
\<close>

type_synonym param_group = "string \<rightharpoonup> pyfloat"

record optimizer =
  optim_class :: string
  param_groups :: "param_group list"

definition isinstance_Adadelta :: "optimizer \<Rightarrow> bool" where
  "isinstance_Adadelta opt = (optim_class opt = ''Adadelta'')"

record controller =
  lr_max :: pyfloat
  decay_type :: string
  decay_start_epoch :: int
  decay_rate :: pyfloat
  decay_patient_epoch :: int
  not_improved_epoch :: int
  lower_better :: bool
  best_value :: pyfloat
  lr_init :: pyfloat
  warmup_start_lr :: pyfloat
  warmup_nsteps :: int

text \<open>
  \<open>Controller.__init__\<close>; the arguments in the order of the source: learning\_rate,
  decay\_type, decay\_start\_epoch, decay\_rate, decay\_patient\_epoch, lower\_better,
  best\_value, model\_size, warmup\_start\_learning\_rate, warmup\_nsteps, factor.
\<close>

definition Controller_init ::
  "pyfloat \<Rightarrow> string \<Rightarrow> int \<Rightarrow> pyfloat \<Rightarrow> int \<Rightarrow> bool \<Rightarrow> pyfloat \<Rightarrow> int \<Rightarrow> pyfloat \<Rightarrow> int \<Rightarrow> pyfloat
     \<Rightarrow> error + controller" where
  "Controller_init learning_rate dtype dstart drate dpatient lbetter best model_size
       wstart wnsteps factor =
     (let c = \<lparr> lr_max = learning_rate,
                 decay_type = dtype,
                 decay_start_epoch = dstart,
                 decay_rate = drate,
                 decay_patient_epoch = dpatient,
                 not_improved_epoch = 0,
                 lower_better = lbetter,
                 best_value = best,
                 lr_init =
                   (if 0 < wnsteps then
                      (if fless (Fin 0) wstart then wstart
                       else fmul factor (np_power model_size (- (1 / 2))))
                    else learning_rate),
                 warmup_start_lr = wstart,
                 warmup_nsteps = wnsteps \<rparr>
      in if dtype = ''warmup'' \<and> \<not> 0 < wnsteps then Inl AssertionError else Inr c)"

text \<open>The constructor with the keyword defaults of the source.\<close>

definition Controller_default :: "pyfloat \<Rightarrow> string \<Rightarrow> int \<Rightarrow> pyfloat \<Rightarrow> error + controller" where
  "Controller_default learning_rate dtype dstart drate =
     Controller_init learning_rate dtype dstart drate 1 True (Fin 10000) 1 (Fin 0) 4000 (Fin 1)"

text \<open>The loop that updates the optimizer in \<open>decay_lr\<close>.\<close>

definition update_optimizer :: "optimizer \<Rightarrow> pyfloat \<Rightarrow> optimizer" where
  "update_optimizer opt lr =
     opt\<lparr> param_groups :=
            map (\<lambda>g. if isinstance_Adadelta opt then g(''eps'' \<mapsto> lr) else g(''lr'' \<mapsto> lr))
                (param_groups opt) \<rparr>"

text \<open>
  \<open>Controller.decay_lr(optimizer, lr, epoch, value)\<close>: returns the controller after the
  call together with the returned optimizer and rate.
\<close>

definition decay_lr ::
  "controller \<Rightarrow> optimizer \<Rightarrow> pyfloat \<Rightarrow> int \<Rightarrow> pyfloat \<Rightarrow> controller \<times> optimizer \<times> pyfloat" where
  "decay_lr c opt lr epoch value0 =
     (let v = (if \<not> lower_better c then fmul value0 (Fin (- 1)) else value0)
      in if epoch < decay_start_epoch c then
           (if decay_type c = ''metric'' then
              (if fless v (best_value c) then (c\<lparr>best_value := v\<rparr>, opt, lr)
               else (c, opt, lr))
            else (c, opt, lr))
         else
           (if decay_type c = ''metric'' then
              (if fless v (best_value c) then
                 (c\<lparr>best_value := v, not_improved_epoch := 0\<rparr>, opt, lr)
               else if not_improved_epoch c < decay_patient_epoch c then
                 (c\<lparr>not_improved_epoch := not_improved_epoch c + 1\<rparr>, opt, lr)
               else
                 (let lr' = fmul lr (decay_rate c)
                  in (c\<lparr>not_improved_epoch := 0\<rparr>, update_optimizer opt lr', lr')))
            else if decay_type c = ''epoch'' then
              (let lr' = fmul lr (decay_rate c)
               in (c, update_optimizer opt lr', lr'))
            else (c, opt, lr)))"

text \<open>
  The training loop calls \<open>decay_lr\<close> once per epoch with the rate the previous call
  returned; \<open>decay_lr_epochs\<close> runs it over a list of (epoch, value) pairs.
\<close>

fun decay_lr_epochs ::
  "controller \<Rightarrow> optimizer \<Rightarrow> pyfloat \<Rightarrow> (int \<times> pyfloat) list \<Rightarrow> controller \<times> optimizer \<times> pyfloat" where
  "decay_lr_epochs c opt lr [] = (c, opt, lr)"
| "decay_lr_epochs c opt lr ((epoch, v) # evs) =
     (case decay_lr c opt lr epoch v of (c', opt', lr') \<Rightarrow> decay_lr_epochs c' opt' lr' evs)"

text \<open>The loop that updates the optimizer in \<open>warmup_lr\<close>.\<close>

definition write_lr :: "optimizer \<Rightarrow> pyfloat \<Rightarrow> optimizer" where
  "write_lr opt lr = opt\<lparr> param_groups := map (\<lambda>g. g(''lr'' \<mapsto> lr)) (param_groups opt) \<rparr>"

text \<open>
  \<open>Controller.warmup_lr(optimizer, lr, step)\<close>: the controller is not changed; the
  division of the linear branch raises when \<open>warmup_nsteps\<close> is zero.
\<close>

definition warmup_lr ::
  "controller \<Rightarrow> optimizer \<Rightarrow> pyfloat \<Rightarrow> int \<Rightarrow> error + optimizer \<times> pyfloat" where
  "warmup_lr c opt lr step =
     (let r =
        (if fless (Fin 0) (warmup_start_lr c) then
           (case fdiv (fsub (lr_max c) (warmup_start_lr c)) (Fin (real_of_int (warmup_nsteps c))) of
              Inl e \<Rightarrow> Inl e
            | Inr q \<Rightarrow> Inr (fadd (fmul q (Fin (real_of_int step))) (lr_init c)))
         else
           Inr (fmul (lr_init c)
                  (np_min2 (np_power step (- (1 / 2)))
                           (fmul (Fin (real_of_int step))
                                 (np_power (warmup_nsteps c) (- (3 / 2)))))))
      in case r of
           Inl e \<Rightarrow> Inl e
         | Inr lr' \<Rightarrow> Inr (write_lr opt lr', lr'))"

text \<open>The rate a call of \<open>warmup_lr\<close> returns, and Python's \<open>x > 0\<close>.\<close>

definition returned_lr :: "error + optimizer \<times> pyfloat \<Rightarrow> error + pyfloat" where
  "returned_lr res = map_sum id snd res"





definition strictly_decreasing :: "pyfloat list \<Rightarrow> bool" where
  "strictly_decreasing vs = sorted_wrt (\<lambda>x y. fless y x) vs"

subsection \<open>Example optimizers and controllers\<close>

definition sgd :: optimizer where
  "sgd = \<lparr> optim_class = ''SGD'', param_groups = [[''lr'' \<mapsto> Fin 1]] \<rparr>"

definition adadelta :: optimizer where
  "adadelta = \<lparr> optim_class = ''Adadelta'',
                param_groups = [[''lr'' \<mapsto> Fin 1, ''eps'' \<mapsto> Fin (1 / 1000000)]] \<rparr>"

text \<open>\<open>Controller(1, 'metric', 0, 0.5)\<close>, \<open>Controller(1, 'epoch', 2, 0.5)\<close> and
  \<open>Controller(1, 'warmup', 0, 0.5)\<close> with the keyword defaults, and
  \<open>Controller(1, 'warmup', 0, 0.5, warmup_start_learning_rate=0.1, warmup_nsteps=10)\<close>.\<close>

definition metric_controller :: controller where
  "metric_controller =
     \<lparr> lr_max = Fin 1, decay_type = ''metric'', decay_start_epoch = 0,
       decay_rate = Fin (1 / 2), decay_patient_epoch = 1, not_improved_epoch = 0,
       lower_better = True, best_value = Fin 10000, lr_init = Fin 1,
       warmup_start_lr = Fin 0, warmup_nsteps = 4000 \<rparr>"


definition warmup_controller :: controller where
  "warmup_controller =
     \<lparr> lr_max = Fin 1, decay_type = ''warmup'', decay_start_epoch = 0,
       decay_rate = Fin (1 / 2), decay_patient_epoch = 1, not_improved_epoch = 0,
       lower_better = True, best_value = Fin 10000, lr_init = Fin 1,
       warmup_start_lr = Fin 0, warmup_nsteps = 4000 \<rparr>"

definition linear_controller :: controller where
  "linear_controller =
     \<lparr> lr_max = Fin 1, decay_type = ''warmup'', decay_start_epoch = 0,
       decay_rate = Fin (1 / 2), decay_patient_epoch = 1, not_improved_epoch = 0,
       lower_better = True, best_value = Fin 10000, lr_init = Fin (1 / 10),
       warmup_start_lr = Fin (1 / 10), warmup_nsteps = 10 \<rparr>"

section \<open>Training reporter (train\_utils.py)\<close>

text \<open>
  The three observation stores are dictionaries from a category (\<open>loss\<close>, \<open>acc\<close>,
  \<open>ppl\<close>) to a dictionary from a metric name to the list of its values. The module's
  logger and the tensorboard writer are external objects; the model keeps what is sent
  to them in the fields \<open>logged\<close> and \<open>tf_writer\<close>. The field \<open>step_cnt\<close> is the
  source's \<open>_step\<close>. Number formatting in the messages is not modelled: an \<open>Info\<close>
  entry carries the number itself.
\<close>

datatype log_entry = Warning string | Info string pyfloat

type_synonym obs_dict = "string \<rightharpoonup> (string \<rightharpoonup> pyfloat list)"

record reporter =
  save_path :: string
  tensorboard :: bool
  tf_writer :: "(string \<times> pyfloat \<times> int) list"
  step_cnt :: int
  obs_train :: obs_dict
  obs_train_local :: obs_dict
  obs_dev :: obs_dict
  steps :: "int list"
  logged :: "log_entry list"

definition empty_obs :: obs_dict where
  "empty_obs = [''loss'' \<mapsto> Map.empty, ''acc'' \<mapsto> Map.empty, ''ppl'' \<mapsto> Map.empty]"

definition Reporter_init :: "string \<Rightarrow> bool \<Rightarrow> reporter" where
  "Reporter_init path tb =
     \<lparr> save_path = path, tensorboard = tb, tf_writer = [], step_cnt = 0,
       obs_train = empty_obs, obs_train_local = empty_obs, obs_dev = empty_obs,
       steps = [], logged = [] \<rparr>"

text \<open>\<open>s.split(sep)\<close> for a one-character separator: never the empty list.\<close>

fun split_on :: "char \<Rightarrow> string \<Rightarrow> string list" where
  "split_on sep [] = [[]]"
| "split_on sep (c # cs) =
     (if c = sep then [] # split_on sep cs
      else (case split_on sep cs of p # ps \<Rightarrow> (c # p) # ps | [] \<Rightarrow> [[c]]))"

text \<open>
  \<open>if name not in d.keys(): d[name] = []\<close> followed by \<open>d[name].append(v)\<close>.
\<close>

definition values_of :: "(string \<rightharpoonup> pyfloat list) \<Rightarrow> string \<Rightarrow> pyfloat list" where
  "values_of d name = (case d name of None \<Rightarrow> [] | Some xs \<Rightarrow> xs)"

definition append_to :: "(string \<rightharpoonup> pyfloat list) \<Rightarrow> string \<Rightarrow> pyfloat \<Rightarrow> (string \<rightharpoonup> pyfloat list)" where
  "append_to d name v = d(name \<mapsto> values_of d name @ [v])"

text \<open>The warning for an infinite value: it is logged, nothing is raised.\<close>

definition warned :: "string \<Rightarrow> pyfloat \<Rightarrow> reporter \<Rightarrow> reporter" where
  "warned k v r =
     (if v = PInf \<or> v = NInf
      then r\<lparr>logged := logged r @ [Warning (''WARNING: received an inf loss for '' @ k @ ''.'')]\<rparr>
      else r)"

text \<open>
  One iteration of the loop of \<open>Reporter.add\<close>. An exception leaves the reporter as it
  is at the raising statement, so the result is the reporter together with the error, if
  any. On an evaluation step the entry \<open>obs_train[category][name]\<close> is created before
  the local buffer is read.
\<close>

definition add_item :: "string \<Rightarrow> pyfloat option \<Rightarrow> bool \<Rightarrow> reporter \<Rightarrow> reporter \<times> error option" where
  "add_item k vo is_eval r =
     (case vo of
        None \<Rightarrow> (r, None)
      | Some v \<Rightarrow>
          (case split_on CHR ''.'' k of
             [category, name] \<Rightarrow>
               (let r1 = warned k v r
                in if \<not> is_eval then
                     (case obs_train_local r1 category of
                        None \<Rightarrow> (r1, Some (KeyError category))
                      | Some loc \<Rightarrow>
                          (r1\<lparr>obs_train_local :=
                                (obs_train_local r1)(category \<mapsto> append_to loc name v)\<rparr>, None))
                   else
                     (case obs_train r1 category of
                        None \<Rightarrow> (r1, Some (KeyError category))
                      | Some tr \<Rightarrow>
                          (let tr1 = (if name \<notin> dom tr then tr(name \<mapsto> []) else tr);
                               r2 = r1\<lparr>obs_train := (obs_train r1)(category \<mapsto> tr1)\<rparr>
                           in case obs_train_local r2 category of
                                None \<Rightarrow> (r2, Some (KeyError category))
                              | Some loc \<Rightarrow>
                                  (case loc name of
                                     None \<Rightarrow> (r2, Some (KeyError name))
                                   | Some xs \<Rightarrow>
                                       (let m = np_mean xs;
                                            r3 = r2\<lparr>obs_train :=
                                                      (obs_train r2)(category \<mapsto> append_to tr1 name m),
                                                    logged := logged r2 @ [Info (k @ '' (train, mean)'') m]\<rparr>
                                        in case obs_dev r3 category of
                                             None \<Rightarrow> (r3, Some (KeyError category))
                                           | Some dv \<Rightarrow>
                                               (let r4 = r3\<lparr>obs_dev :=
                                                             (obs_dev r3)(category \<mapsto> append_to dv name v),
                                                           logged := logged r3 @ [Info (k @ '' (dev)'') v]\<rparr>
                                                in (if tensorboard r4
                                                    then r4\<lparr>tf_writer := tf_writer r4 @
                                                           [(''dev/'' @ category @ ''/'' @ name, v, step_cnt r4)]\<rparr>
                                                    else r4, None)))))))
           | _ \<Rightarrow> (r, Some ValueError)))"

text \<open>\<open>Reporter.add(observation, is_eval)\<close>: the items in order, up to the first error.\<close>

fun add :: "(string \<times> pyfloat option) list \<Rightarrow> bool \<Rightarrow> reporter \<Rightarrow> reporter \<times> error option" where
  "add [] is_eval r = (r, None)"
| "add ((k, vo) # observation) is_eval r =
     (case add_item k vo is_eval r of
        (r', None) \<Rightarrow> add observation is_eval r'
      | (r', Some e) \<Rightarrow> (r', Some e))"

text \<open>\<open>Reporter.step(is_eval)\<close>.\<close>

definition step :: "bool \<Rightarrow> reporter \<Rightarrow> reporter" where
  "step is_eval r =
     (let r1 = r\<lparr>step_cnt := step_cnt r + 1\<rparr>
      in if is_eval
         then r1\<lparr>steps := steps r1 @ [step_cnt r1], obs_train_local := empty_obs\<rparr>
         else r1)"

text \<open>
  The training loop calls \<open>add\<close> and \<open>step\<close> in turn; \<open>run\<close> performs a list of such
  calls and stops at the first exception.
\<close>

datatype call = Add "(string \<times> pyfloat option) list" bool | Step bool

fun run :: "call list \<Rightarrow> reporter \<Rightarrow> reporter \<times> error option" where
  "run [] r = (r, None)"
| "run (Add observation is_eval # cs) r =
     (case add observation is_eval r of
        (r', None) \<Rightarrow> run cs r'
      | (r', Some e) \<Rightarrow> (r', Some e))"
| "run (Step is_eval # cs) r = run cs (step is_eval r)"

text \<open>A fresh reporter.\<close>

definition reporter0 :: reporter where
  "reporter0 = Reporter_init ''exp'' True"

text \<open>The reporter after one training step that records a loss of 1.\<close>

definition reporter1 :: reporter where
  "reporter1 = fst (add [(''loss.ctc'', Some (Fin 1))] False reporter0)"

section \<open>Error-rate scorer (cer.py)\<close>






text \<open>\<open>p in s\<close> on strings.\<close>

fun is_substr :: "string \<Rightarrow> string \<Rightarrow> bool" where
  "is_substr p [] = (p = [])"
| "is_substr p (c # cs) = (take (length p) (c # cs) = p \<or> is_substr p cs)"















section \<open>Dataset loader (load\_dataset.py)\<close>

text \<open>
  The base class \<open>DatasetBase\<close>, the label maps and the file system are not part of
  these sources. They enter as an environment: the base constructor (it receives the
  vocabulary path only), the constructors of the label maps, and \<open>pd.read_csv\<close>
  followed by the selection of the three columns; each may raise. \<open>len(self)\<close> is taken
  to be the number of rows. Pandas sorts with an unstable algorithm, so the order among
  equal keys is not fixed by the source; the model sorts stably. The data frame is the
  list of rows, each with the added column \<open>index\<close>; \<open>pd.concat\<close> aligns that column
  on the row labels, and the rows are taken to keep the sorted order.
\<close>

record csv_row =
  frame_num :: int
  input_path :: string
  transcript :: string

datatype map_fn = Word2idx string | Char2idx string bool

record dataset_env =
  base_init :: "string \<Rightarrow> error option"
  make_map_fn :: "map_fn \<Rightarrow> error option"
  read_csv :: "string \<Rightarrow> error + csv_row list"

record dataset_args =
  arg_model_type :: string
  arg_data_type :: string
  arg_data_size :: string
  arg_label_type :: string
  arg_batch_size :: int
  arg_vocab_file_path :: string
  arg_max_epoch :: "int option"
  arg_splice :: int
  arg_num_stack :: int
  arg_num_skip :: int
  arg_shuffle :: bool
  arg_sort_utt :: bool
  arg_reverse :: bool
  arg_sort_stop_epoch :: "int option"
  arg_num_gpus :: int
  arg_use_cuda :: bool
  arg_volatile :: bool
  arg_save_format :: string

record dataset =
  is_test :: bool
  model_type :: string
  data_type :: string
  data_size :: string
  label_type :: string
  batch_size :: int
  max_epoch :: "int option"
  splice_n :: int
  num_stack :: int
  num_skip :: int
  shuffle :: bool
  sort_utt :: bool
  sort_stop_epoch :: "int option"
  num_gpus :: int
  use_cuda :: bool
  volatile :: bool
  save_format :: string
  map_fn_of :: map_fn
  df :: "(csv_row \<times> int) list"
  rest :: "nat set"

text \<open>How a construction ends: with an exception or not.\<close>

definition raised :: "error + dataset \<Rightarrow> error option" where
  "raised res = (case res of Inl e \<Rightarrow> Some e | Inr d \<Rightarrow> None)"

text \<open>\<open>os.path.join\<close> on POSIX paths.\<close>

definition join2 :: "string \<Rightarrow> string \<Rightarrow> string" where
  "join2 path b =
     (if take 1 b = ''/'' then b
      else if path = [] \<or> last path = CHR ''/'' then path @ b
      else path @ ''/'' @ b)"

definition join :: "string \<Rightarrow> string list \<Rightarrow> string" where
  "join a ps = foldl join2 a ps"

definition dataset_path_of :: "dataset_args \<Rightarrow> error + string" where
  "dataset_path_of a =
     (let dir = [arg_save_format a, arg_data_size a, arg_data_type a]
      in if is_substr ''kana'' (arg_label_type a) then
           Inr (join ''/n/sd8/inaguma/corpus/csj/dataset'' (dir @ [''dataset_kana.csv'']))
         else if is_substr ''kanji'' (arg_label_type a) \<or> is_substr ''word'' (arg_label_type a) then
           Inr (join ''/n/sd8/inaguma/corpus/csj/dataset'' (dir @ [''dataset_kanji.csv'']))
         else if is_substr ''phone'' (arg_label_type a) then
           Inr (join ''/n/sd8/inaguma/corpus/csj/dataset'' (dir @ [''dataset_phone.csv'']))
         else Inl UnboundLocalError)"

text \<open>
  \<open>Dataset.__init__\<close>. A label type that names no manifest leaves \<open>dataset_path\<close>
  unbound; the source reaches the use of it only after the label map is built.
\<close>

definition Dataset_init :: "dataset_env \<Rightarrow> dataset_args \<Rightarrow> error + dataset" where
  "Dataset_init env a =
     (case base_init env (arg_vocab_file_path a) of
        Some e \<Rightarrow> Inl e
      | None \<Rightarrow>
          (let fn = (if is_substr ''word'' (arg_label_type a)
                     then Word2idx (arg_vocab_file_path a)
                     else Char2idx (arg_vocab_file_path a) True)
           in case make_map_fn env fn of
                Some e \<Rightarrow> Inl e
              | None \<Rightarrow>
                  (case dataset_path_of a of
                     Inl e \<Rightarrow> Inl e
                   | Inr path \<Rightarrow>
                       (case read_csv env path of
                          Inl e \<Rightarrow> Inl e
                        | Inr rows \<Rightarrow>
                            (let sorted_rows =
                                   (if arg_sort_utt a then
                                      (if arg_reverse a
                                       then sort_key (\<lambda>r. - frame_num r) rows
                                       else sort_key frame_num rows)
                                    else sort_key input_path rows);
                                 frame = map (\<lambda>r. (r, 0)) sorted_rows
                             in Inr \<lparr> is_test = (arg_data_type a \<in> {''eval1'', ''eval2'', ''eval3''}),
                                      model_type = arg_model_type a,
                                      data_type = arg_data_type a,
                                      data_size = arg_data_size a,
                                      label_type = arg_label_type a,
                                      batch_size = arg_batch_size a * arg_num_gpus a,
                                      max_epoch = arg_max_epoch a,
                                      splice_n = arg_splice a,
                                      num_stack = arg_num_stack a,
                                      num_skip = arg_num_skip a,
                                      shuffle = arg_shuffle a,
                                      sort_utt = arg_sort_utt a,
                                      sort_stop_epoch = arg_sort_stop_epoch a,
                                      num_gpus = arg_num_gpus a,
                                      use_cuda = arg_use_cuda a,
                                      volatile = arg_volatile a,
                                      save_format = arg_save_format a,
                                      map_fn_of = fn,
                                      df = frame,
                                      rest = {0 ..< length frame} \<rparr>)))))"

subsection \<open>An example manifest\<close>

definition rows0 :: "csv_row list" where
  "rows0 = [\<lparr> frame_num = 300, input_path = ''b.npy'', transcript = ''x'' \<rparr>,
            \<lparr> frame_num = 120, input_path = ''c.npy'', transcript = ''y'' \<rparr>]"

fun no_error :: "'a \<Rightarrow> error option" where
  "no_error x = None"

fun read_rows0 :: "string \<Rightarrow> error + csv_row list" where
  "read_rows0 path = Inr rows0"

definition env0 :: dataset_env where
  "env0 = \<lparr> base_init = no_error, make_map_fn = no_error, read_csv = read_rows0 \<rparr>"

text \<open>\<open>Dataset('ctc', 'train', 'subset', 'kana', 32, 'vocab.txt', shuffle=True, sort_utt=True)\<close>.\<close>

definition args0 :: dataset_args where
  "args0 = \<lparr> arg_model_type = ''ctc'', arg_data_type = ''train'', arg_data_size = ''subset'',
              arg_label_type = ''kana'', arg_batch_size = 32, arg_vocab_file_path = ''vocab.txt'',
              arg_max_epoch = None, arg_splice = 1, arg_num_stack = 1, arg_num_skip = 1,
              arg_shuffle = True, arg_sort_utt = True, arg_reverse = False,
              arg_sort_stop_epoch = None, arg_num_gpus = 1, arg_use_cuda = False,
              arg_volatile = False, arg_save_format = ''numpy'' \<rparr>"

definition dataset0 :: dataset where
  "dataset0 = \<lparr> is_test = False, model_type = ''ctc'', data_type = ''train'',
                 data_size = ''subset'', label_type = ''kana'', batch_size = 32,
                 max_epoch = None, splice_n = 1, num_stack = 1, num_skip = 1,
                 shuffle = True, sort_utt = True, sort_stop_epoch = None, num_gpus = 1,
                 use_cuda = False, volatile = False, save_format = ''numpy'',
                 map_fn_of = Char2idx ''vocab.txt'' True,
                 df = [(\<lparr> frame_num = 120, input_path = ''c.npy'', transcript = ''y'' \<rparr>, 0),
                       (\<lparr> frame_num = 300, input_path = ''b.npy'', transcript = ''x'' \<rparr>, 0)],
                 rest = {0 ..< 2} \<rparr>"

section \<open>Properties of the controller\<close>

lemma decay_lr_metric_improved:
  "decay_type c = ''metric'' \<Longrightarrow> lower_better c \<Longrightarrow> fless v (best_value c) \<Longrightarrow>
   decay_lr c opt lr epoch v =
     (if epoch < decay_start_epoch c then c\<lparr>best_value := v\<rparr>
      else c\<lparr>best_value := v, not_improved_epoch := 0\<rparr>, opt, lr)"
  by (simp add: decay_lr_def)

lemma decay_lr_metric_not_improved:
  "decay_type c = ''metric'' \<Longrightarrow> lower_better c \<Longrightarrow> \<not> fless v (best_value c) \<Longrightarrow>
   decay_start_epoch c \<le> epoch \<Longrightarrow>
   decay_lr c opt lr epoch v =
     (if not_improved_epoch c < decay_patient_epoch c
      then (c\<lparr>not_improved_epoch := not_improved_epoch c + 1\<rparr>, opt, lr)
      else (c\<lparr>not_improved_epoch := 0\<rparr>, update_optimizer opt (fmul lr (decay_rate c)),
            fmul lr (decay_rate c)))"
  by (simp add: decay_lr_def Let_def)

lemma decay_lr_epochs_decreasing:
  "decay_type c = ''metric'' \<Longrightarrow> lower_better c \<Longrightarrow>
   sorted_wrt (\<lambda>x y. fless y x) (map snd evs) \<Longrightarrow>
   (\<forall>x \<in> set (map snd evs). fless x (best_value c)) \<Longrightarrow>
   snd (decay_lr_epochs c opt lr evs) = (opt, lr)"
proof (induction evs arbitrary: c)
  case Nil
  then show ?case by simp
next
  case (Cons ev evs)
  obtain epoch v where ev: "ev = (epoch, v)" by (cases ev)
  from Cons.prems ev have v: "fless v (best_value c)" by simp
  from Cons.prems ev have below: "\<forall>x \<in> set (map snd evs). fless x v" by auto
  from Cons.prems have srt: "sorted_wrt (\<lambda>x y. fless y x) (map snd evs)" by simp
  show ?case
  proof (cases "epoch < decay_start_epoch c")
    case True
    with Cons.prems v ev Cons.IH [of "c\<lparr>best_value := v\<rparr>"] below srt
    show ?thesis by (simp add: decay_lr_metric_improved)
  next
    case False
    with Cons.prems v ev Cons.IH [of "c\<lparr>best_value := v, not_improved_epoch := 0\<rparr>"] below srt
    show ?thesis by (simp add: decay_lr_metric_improved)
  qed
qed

lemma decay_lr_epochs_flat:
  "decay_type c = ''metric'' \<Longrightarrow> lower_better c \<Longrightarrow> decay_rate c = Fin d \<Longrightarrow>
   not_improved_epoch c = int k \<Longrightarrow> decay_patient_epoch c = int p \<Longrightarrow> k \<le> p \<Longrightarrow>
   \<not> fless v (best_value c) \<Longrightarrow>
   \<forall>ev \<in> set evs. decay_start_epoch c \<le> fst ev \<and> snd ev = v \<Longrightarrow>
   fst (decay_lr_epochs c opt (Fin a) evs) =
       c\<lparr>not_improved_epoch := int ((k + length evs) mod (p + 1))\<rparr> \<and>
   snd (snd (decay_lr_epochs c opt (Fin a) evs)) =
       Fin (a * d ^ ((k + length evs) div (p + 1)))"
proof (induction evs arbitrary: c opt a k)
  case Nil
  then show ?case by simp
next
  case (Cons ev evs)
  obtain epoch where ev: "ev = (epoch, v)" and ep: "decay_start_epoch c \<le> epoch"
    using Cons.prems(8) by (cases ev) auto
  show ?case
  proof (cases "k < p")
    case True
    let ?c = "c\<lparr>not_improved_epoch := not_improved_epoch c + 1\<rparr>"
    have step: "decay_lr c opt (Fin a) epoch v = (?c, opt, Fin a)"
      using Cons.prems True ep by (simp add: decay_lr_metric_not_improved)
    have "fst (decay_lr_epochs ?c opt (Fin a) evs) =
            ?c\<lparr>not_improved_epoch := int ((Suc k + length evs) mod (p + 1))\<rparr> \<and>
          snd (snd (decay_lr_epochs ?c opt (Fin a) evs)) =
            Fin (a * d ^ ((Suc k + length evs) div (p + 1)))"
      using Cons.prems True by (intro Cons.IH) auto
    with step ev show ?thesis by simp
  next
    case False
    with Cons.prems have kp: "k = p" by simp
    let ?c = "c\<lparr>not_improved_epoch := 0\<rparr>"
    let ?opt = "update_optimizer opt (Fin (a * d))"
    have step: "decay_lr c opt (Fin a) epoch v = (?c, ?opt, Fin (a * d))"
      using Cons.prems kp ep by (simp add: decay_lr_metric_not_improved)
    have "fst (decay_lr_epochs ?c ?opt (Fin (a * d)) evs) =
            ?c\<lparr>not_improved_epoch := int ((0 + length evs) mod (p + 1))\<rparr> \<and>
          snd (snd (decay_lr_epochs ?c ?opt (Fin (a * d)) evs)) =
            Fin (a * d * d ^ ((0 + length evs) div (p + 1)))"
      using Cons.prems by (intro Cons.IH) auto
    moreover have len: "k + length (ev # evs) = (p + 1) + length evs"
      using kp by simp
    have "(k + length (ev # evs)) mod (p + 1) = length evs mod (p + 1)"
      unfolding len by (rule mod_add_self1)
    moreover have "(k + length (ev # evs)) div (p + 1) = Suc (length evs div (p + 1))"
      unfolding len by (subst div_add_self1) simp_all
    ultimately show ?thesis using step ev by (simp add: mult.assoc)
  qed
qed

lemma fless_trans: "fless x y \<Longrightarrow> fless y z \<Longrightarrow> fless x z"
  by (cases x; cases y; cases z) simp_all

lemma strictly_decreasing_below:
  "strictly_decreasing (v # vs) \<Longrightarrow> fless v b \<Longrightarrow> \<forall>x \<in> set (v # vs). fless x b"
  by (auto simp: strictly_decreasing_def intro: fless_trans)

lemma np_min2_Fin: "np_min2 (Fin x) (Fin y) = Fin (min x y)"
  by (simp add: np_min2_def min_def)

lemma powr_at_peak:
  fixes n :: real
  assumes "0 < n"
  shows "min (n powr (- (1 / 2))) (n * n powr (- (3 / 2))) = n powr (- (1 / 2))"
proof -
  have "n * n powr (- (3 / 2)) = n powr (1 + - (3 / 2))"
    using assms by (simp add: powr_mult_base)
  also have "\<dots> = n powr (- (1 / 2))"
    by simp
  finally show ?thesis by simp
qed

lemma warmup_lr_inverse_sqrt:
  assumes "\<not> fless (Fin 0) (warmup_start_lr c)" and "lr_init c = Fin li"
    and "0 < warmup_nsteps c" and "0 < stp"
  shows "warmup_lr c opt lr stp =
           Inr (write_lr opt
                  (Fin (li * min (real_of_int stp powr (- (1 / 2)))
                           (real_of_int stp * real_of_int (warmup_nsteps c) powr (- (3 / 2))))),
                Fin (li * min (real_of_int stp powr (- (1 / 2)))
                           (real_of_int stp * real_of_int (warmup_nsteps c) powr (- (3 / 2)))))"
  using assms by (simp add: warmup_lr_def np_power_def np_min2_Fin write_lr_def)

text \<open>
  C3, as stated: any strictly decreasing sequence of values leaves the rate undecayed.
  The controller built with the defaults starts from \<open>best_value = 10000\<close>; the
  strictly decreasing values 20000, 19999 never improve on it, and the second call
  multiplies the rate by \<open>decay_rate\<close>.
\<close>


theorem decay_lr_metric_decreasing_counterexample:
  "Controller_default (Fin 1) ''metric'' 0 (Fin (1 / 2)) = Inr metric_controller \<and>
   strictly_decreasing [Fin 20000, Fin 19999] \<and>
   snd (snd (decay_lr_epochs metric_controller sgd (Fin 1) [(0, Fin 20000), (1, Fin 19999)]))
     = Fin (1 / 2)"
  by (simp add: Controller_default_def Controller_init_def np_power_def strictly_decreasing_def
        metric_controller_def decay_lr_def Let_def)

text \<open>
  C3, amended: with \<open>decay_type = 'metric'\<close> and \<open>lower_better = True\<close>, a strictly
  decreasing sequence of values whose first value is below the controller's
  \<open>best_value\<close> never changes the rate or the optimizer. From a counter of 0, a flat
  sequence of non-improving values at or after \<open>decay_start_epoch\<close> decays the rate once
  every \<open>decay_patient_epoch + 1\<close> calls: after n calls the rate has been multiplied
  \<open>n div (decay_patient_epoch + 1)\<close> times and the counter is
  \<open>n mod (decay_patient_epoch + 1)\<close>. The counter is set to 0 by an improving value and
  by the call that decays.
\<close>


theorem decay_lr_metric_plateau:
  assumes "decay_type c = ''metric''" and "lower_better c"
  shows "(strictly_decreasing (map snd evs) \<and> (evs \<noteq> [] \<longrightarrow> fless (snd (hd evs)) (best_value c))
            \<longrightarrow> snd (decay_lr_epochs c opt lr evs) = (opt, lr)) \<and>
         (decay_rate c = Fin d \<and> not_improved_epoch c = 0 \<and> decay_patient_epoch c = int p \<and>
          \<not> fless v (best_value c) \<and>
          (\<forall>ev \<in> set flat. decay_start_epoch c \<le> fst ev \<and> snd ev = v)
            \<longrightarrow> fst (decay_lr_epochs c opt (Fin a) flat) =
                  c\<lparr>not_improved_epoch := int (length flat mod (p + 1))\<rparr> \<and>
                snd (snd (decay_lr_epochs c opt (Fin a) flat)) =
                  Fin (a * d ^ (length flat div (p + 1)))) \<and>
         (decay_start_epoch c \<le> epoch \<and> fless v (best_value c)
            \<longrightarrow> decay_lr c opt lr epoch v =
                  (c\<lparr>best_value := v, not_improved_epoch := 0\<rparr>, opt, lr)) \<and>
         (decay_start_epoch c \<le> epoch \<and> \<not> fless v (best_value c) \<and>
          \<not> not_improved_epoch c < decay_patient_epoch c
            \<longrightarrow> decay_lr c opt lr epoch v =
                  (c\<lparr>not_improved_epoch := 0\<rparr>, update_optimizer opt (fmul lr (decay_rate c)),
                   fmul lr (decay_rate c)))"
proof (intro conjI impI)
  assume h: "strictly_decreasing (map snd evs) \<and>
             (evs \<noteq> [] \<longrightarrow> fless (snd (hd evs)) (best_value c))"
  have "\<forall>x \<in> set (map snd evs). fless x (best_value c)"
  proof (cases evs)
    case Nil
    then show ?thesis by simp
  next
    case (Cons ev evs')
    with h strictly_decreasing_below [of "snd ev" "map snd evs'" "best_value c"]
    show ?thesis by simp
  qed
  with h assms show "snd (decay_lr_epochs c opt lr evs) = (opt, lr)"
    by (simp add: decay_lr_epochs_decreasing strictly_decreasing_def)
next
  assume h: "decay_rate c = Fin d \<and> not_improved_epoch c = 0 \<and> decay_patient_epoch c = int p \<and>
          \<not> fless v (best_value c) \<and>
          (\<forall>ev \<in> set flat. decay_start_epoch c \<le> fst ev \<and> snd ev = v)"
  with assms decay_lr_epochs_flat [of c d 0 p v flat opt a]
  show "fst (decay_lr_epochs c opt (Fin a) flat) =
          c\<lparr>not_improved_epoch := int (length flat mod (p + 1))\<rparr>"
    and "snd (snd (decay_lr_epochs c opt (Fin a) flat)) =
          Fin (a * d ^ (length flat div (p + 1)))"
    by simp_all
next
  assume "decay_start_epoch c \<le> epoch \<and> fless v (best_value c)"
  with assms show "decay_lr c opt lr epoch v =
                  (c\<lparr>best_value := v, not_improved_epoch := 0\<rparr>, opt, lr)"
    by (simp add: decay_lr_metric_improved)
next
  assume "decay_start_epoch c \<le> epoch \<and> \<not> fless v (best_value c) \<and>
          \<not> not_improved_epoch c < decay_patient_epoch c"
  with assms show "decay_lr c opt lr epoch v =
                  (c\<lparr>not_improved_epoch := 0\<rparr>, update_optimizer opt (fmul lr (decay_rate c)),
                   fmul lr (decay_rate c))"
    by (simp add: decay_lr_metric_not_improved)
qed

theorem decay_lr_metric_plateau_witness:
  "decay_type metric_controller = ''metric'' \<and> lower_better metric_controller \<and>
   strictly_decreasing [Fin 3, Fin 2] \<and> fless (Fin 3) (best_value metric_controller) \<and>
   snd (decay_lr_epochs metric_controller sgd (Fin 1) [(0, Fin 3), (1, Fin 2)]) = (sgd, Fin 1) \<and>
   decay_rate metric_controller = Fin (1 / 2) \<and> not_improved_epoch metric_controller = 0 \<and>
   decay_patient_epoch metric_controller = int 1 \<and>
   \<not> fless (Fin 10000) (best_value metric_controller) \<and>
   decay_start_epoch metric_controller \<le> 0 \<and>
   fst (decay_lr_epochs metric_controller sgd (Fin 1)
          [(0, Fin 10000), (1, Fin 10000), (2, Fin 10000), (3, Fin 10000), (4, Fin 10000)])
     = metric_controller\<lparr>not_improved_epoch := 1\<rparr> \<and>
   snd (snd (decay_lr_epochs metric_controller sgd (Fin 1)
          [(0, Fin 10000), (1, Fin 10000), (2, Fin 10000), (3, Fin 10000), (4, Fin 10000)]))
     = Fin (1 / 4) \<and>
   decay_lr metric_controller sgd (Fin 1) 0 (Fin 3) =
     (metric_controller\<lparr>best_value := Fin 3, not_improved_epoch := 0\<rparr>, sgd, Fin 1) \<and>
   decay_lr (metric_controller\<lparr>not_improved_epoch := 1\<rparr>) sgd (Fin 1) 1 (Fin 10000) =
     (metric_controller\<lparr>not_improved_epoch := 0\<rparr>, update_optimizer sgd (Fin (1 / 2)), Fin (1 / 2))"
proof -
  have m: "decay_type metric_controller = ''metric''" "lower_better metric_controller"
    by (simp_all add: metric_controller_def)
  have m1: "decay_type (metric_controller\<lparr>not_improved_epoch := 1\<rparr>) = ''metric''"
      "lower_better (metric_controller\<lparr>not_improved_epoch := 1\<rparr>)"
    by (simp_all add: metric_controller_def)
  have a: "strictly_decreasing [Fin 3, Fin 2]" "fless (Fin 3) (best_value metric_controller)"
      "decay_rate metric_controller = Fin (1 / 2)" "not_improved_epoch metric_controller = 0"
      "decay_patient_epoch metric_controller = int 1"
      "\<not> fless (Fin 10000) (best_value metric_controller)"
      "decay_start_epoch metric_controller \<le> 0"
    by (simp_all add: strictly_decreasing_def metric_controller_def)
  have len: "length [(0::int, Fin 10000), (1, Fin 10000), (2, Fin 10000), (3, Fin 10000),
                     (4, Fin 10000)] = 5"
    by simp
  have two: "(1::nat) + 1 = 2"
    by (rule one_add_one)
  have ar: "(5::nat) mod (1 + 1) = 1" "(5::nat) div (1 + 1) = 2"
    unfolding two by simp_all
  note t1 = decay_lr_metric_plateau [OF m, of "[(0, Fin 3), (1, Fin 2)]" sgd "Fin 1" "1 / 2" 1 "Fin 10000"
      "[(0, Fin 10000), (1, Fin 10000), (2, Fin 10000), (3, Fin 10000), (4, Fin 10000)]" 1 0,
      unfolded len ar]
  note t2 = decay_lr_metric_plateau [OF m, of "[]" sgd "Fin 1" "1 / 2" 1 "Fin 3" "[]" 1 0]
  note t3 = decay_lr_metric_plateau [OF m1, of "[]" sgd "Fin 1" "1 / 2" 1 "Fin 10000" "[]" 1 1]
  show ?thesis using m a t1 t2 t3
    by (simp add: metric_controller_def power2_eq_square)
qed

text \<open>
  C4: in the inverse-square-root branch (\<open>warmup_start_lr = 0\<close>), for positive \<open>step\<close>
  and \<open>warmup_nsteps\<close>, \<open>warmup_lr\<close> returns
  \<open>lr_init * min (step ^ -0.5) (step * warmup_nsteps ^ -1.5)\<close>, and at
  \<open>step = warmup_nsteps\<close> this is \<open>lr_init * warmup_nsteps ^ -0.5\<close>. The arithmetic is
  that of the reals, so the equality is exact where the source's is up to rounding.
\<close>


theorem warmup_lr_inverse_sqrt_schedule:
  assumes "warmup_start_lr c = Fin 0" and "lr_init c = Fin li"
    and "0 < warmup_nsteps c" and "0 < stp"
  shows "returned_lr (warmup_lr c opt lr stp) =
           Inr (Fin (li * min (real_of_int stp powr (- (1 / 2)))
                          (real_of_int stp * real_of_int (warmup_nsteps c) powr (- (3 / 2))))) \<and>
         returned_lr (warmup_lr c opt lr (warmup_nsteps c)) =
           Inr (Fin (li * real_of_int (warmup_nsteps c) powr (- (1 / 2))))"
proof -
  have b: "\<not> fless (Fin 0) (warmup_start_lr c)"
    using assms(1) by simp
  have "min (real_of_int (warmup_nsteps c) powr (- (1 / 2)))
          (real_of_int (warmup_nsteps c) * real_of_int (warmup_nsteps c) powr (- (3 / 2)))
        = real_of_int (warmup_nsteps c) powr (- (1 / 2))"
    using assms(3) by (intro powr_at_peak) simp
  then show ?thesis
    using warmup_lr_inverse_sqrt [OF b assms(2,3,4), of opt lr]
      warmup_lr_inverse_sqrt [OF b assms(2,3,3), of opt lr]
    by (simp add: returned_lr_def)
qed

theorem warmup_lr_inverse_sqrt_schedule_witness:
  "Controller_default (Fin 1) ''warmup'' 0 (Fin (1 / 2)) = Inr warmup_controller \<and>
   warmup_start_lr warmup_controller = Fin 0 \<and> lr_init warmup_controller = Fin 1 \<and>
   0 < warmup_nsteps warmup_controller \<and> (0::int) < 100 \<and>
   returned_lr (warmup_lr warmup_controller sgd (Fin 1) 100) =
     Inr (Fin (min (100 powr (- (1 / 2))) (100 * 4000 powr (- (3 / 2))))) \<and>
   returned_lr (warmup_lr warmup_controller sgd (Fin 1) 4000) =
     Inr (Fin (4000 powr (- (1 / 2))))"
proof -
  have i: "Controller_default (Fin 1) ''warmup'' 0 (Fin (1 / 2)) = Inr warmup_controller"
    by (simp add: Controller_default_def Controller_init_def warmup_controller_def np_power_def)
  have h: "warmup_start_lr warmup_controller = Fin 0" "lr_init warmup_controller = Fin 1"
      "0 < warmup_nsteps warmup_controller" "(0::int) < 100"
    by (simp_all add: warmup_controller_def)
  have n: "warmup_nsteps warmup_controller = 4000"
    by (simp add: warmup_controller_def)
  show ?thesis
    using i h warmup_lr_inverse_sqrt_schedule [OF h, of sgd "Fin 1"] by (simp add: n)
qed










text \<open>What the two update loops write, and what they leave alone.\<close>

lemma decay_lr_frame:
  "decay_lr c opt lr epoch v = (c', opt', lr') \<Longrightarrow>
   opt' = opt \<and> lr' = lr \<or> opt' = update_optimizer opt lr'"
  by (auto simp: decay_lr_def Let_def split: if_splits)

lemma update_optimizer_frame:
  "length (param_groups (update_optimizer opt lr)) = length (param_groups opt) \<and>
   optim_class (update_optimizer opt lr) = optim_class opt \<and>
   (\<forall>i < length (param_groups opt). \<forall>k.
      (param_groups (update_optimizer opt lr) ! i) k =
        (if k = (if isinstance_Adadelta opt then ''eps'' else ''lr'') then Some lr
         else (param_groups opt ! i) k))"
  by (simp add: update_optimizer_def)

lemma write_lr_frame:
  "length (param_groups (write_lr opt lr)) = length (param_groups opt) \<and>
   optim_class (write_lr opt lr) = optim_class opt \<and>
   (\<forall>i < length (param_groups opt). \<forall>k.
      (param_groups (write_lr opt lr) ! i) k =
        (if k = ''lr'' then Some lr else (param_groups opt ! i) k))"
  by (simp add: write_lr_def)

text \<open>
  C5: \<open>warmup_lr\<close> on an Adadelta optimizer. The update loop of \<open>decay_lr\<close> writes the
  rate of an Adadelta optimizer into \<open>eps\<close>; the loop of \<open>warmup_lr\<close> has no such
  case and writes \<open>lr\<close>, leaving \<open>eps\<close> as it was.
\<close>

theorem warmup_lr_adadelta_writes_lr:
  "isinstance_Adadelta adadelta \<and>
   warmup_lr linear_controller adadelta (Fin 1) 5 =
     Inr (adadelta\<lparr>param_groups := [[''lr'' \<mapsto> Fin (11 / 20), ''eps'' \<mapsto> Fin (1 / 1000000)]]\<rparr>,
          Fin (11 / 20)) \<and>
   update_optimizer adadelta (Fin (11 / 20)) =
     adadelta\<lparr>param_groups := [[''lr'' \<mapsto> Fin 1, ''eps'' \<mapsto> Fin (11 / 20)]]\<rparr>"
  by (auto simp: warmup_lr_def write_lr_def linear_controller_def adadelta_def fsub_def
        isinstance_Adadelta_def update_optimizer_def fun_eq_iff)

section \<open>Properties of the reporter\<close>

lemma add_item_train:
  "split_on CHR ''.'' k = [c, n] \<Longrightarrow> obs_train_local r c = Some loc \<Longrightarrow>
   add_item k (Some v) False r =
     ((warned k v r)\<lparr>obs_train_local := (obs_train_local r)(c \<mapsto> append_to loc n v)\<rparr>, None)"
  by (simp add: add_item_def warned_def)

lemma add_item_eval_missing:
  "split_on CHR ''.'' k = [c, n] \<Longrightarrow> obs_train r c = Some tr \<Longrightarrow>
   obs_train_local r c = Some loc \<Longrightarrow> loc n = None \<Longrightarrow>
   add_item k (Some v) True r =
     ((warned k v r)\<lparr>obs_train :=
         (obs_train r)(c \<mapsto> (if n \<notin> dom tr then tr(n \<mapsto> []) else tr))\<rparr>,
      Some (KeyError n))"
  by (simp add: add_item_def warned_def Let_def)

lemma add_item_eval:
  "split_on CHR ''.'' k = [c, n] \<Longrightarrow> obs_train r c = Some tr \<Longrightarrow>
   obs_train_local r c = Some loc \<Longrightarrow> loc n = Some xs \<Longrightarrow> obs_dev r c = Some dv \<Longrightarrow>
   add_item k (Some v) True r =
     ((warned k v r)
        \<lparr>tf_writer := (if tensorboard r
                        then tf_writer r @ [(''dev/'' @ c @ ''/'' @ n, v, step_cnt r)]
                        else tf_writer r),
         obs_train := (obs_train r)(c \<mapsto> append_to tr n (np_mean xs)),
         obs_dev := (obs_dev r)(c \<mapsto> append_to dv n v),
         logged := logged (warned k v r) @
                     [Info (k @ '' (train, mean)'') (np_mean xs), Info (k @ '' (dev)'') v]\<rparr>,
      None)"
  by (auto simp: add_item_def warned_def Let_def append_to_def values_of_def
        fun_eq_iff domIff)

lemma add_single: "add [(k, vo)] is_eval r = add_item k vo is_eval r"
  by (simp split: prod.splits option.splits)

lemma np_mean_three: "np_mean [Fin a1, Fin a2, Fin a3] = Fin ((a1 + a2 + a3) / 3)"
  by (simp add: np_mean_def add.assoc)

lemma warned_fields [simp]:
  "obs_train (warned k v r) = obs_train r"
  "obs_train_local (warned k v r) = obs_train_local r"
  "obs_dev (warned k v r) = obs_dev r"
  "steps (warned k v r) = steps r"
  "step_cnt (warned k v r) = step_cnt r"
  "tensorboard (warned k v r) = tensorboard r"
  "tf_writer (warned k v r) = tf_writer r"
  by (simp_all add: warned_def)

lemma warned_Fin [simp]: "warned k (Fin a) r = r"
  by (simp add: warned_def)

lemma step_train_fields [simp]:
  "obs_train (step False r) = obs_train r"
  "obs_train_local (step False r) = obs_train_local r"
  "obs_dev (step False r) = obs_dev r"
  "steps (step False r) = steps r"
  "step_cnt (step False r) = step_cnt r + 1"
  by (simp_all add: step_def)

lemma step_eval_fields:
  "obs_train (step True r) = obs_train r"
  "obs_train_local (step True r) = empty_obs"
  "obs_dev (step True r) = obs_dev r"
  "steps (step True r) = steps r @ [step_cnt r + 1]"
  "step_cnt (step True r) = step_cnt r + 1"
  by (simp_all add: step_def Let_def)

text \<open>
  C7: three training steps that record the same metric, each followed by
  \<open>step(is_eval=False)\<close>, then an evaluation step. The \<open>add\<close> of the evaluation step
  appends the arithmetic mean of the three buffered values to the train history of the
  metric and the incoming value to its dev history; the following \<open>step(is_eval=True)\<close>
  appends the step count to \<open>steps\<close> and clears the local buffer.
\<close>

theorem reporter_train_mean_on_eval:
  assumes "split_on CHR ''.'' k = [category, name]"
    and "obs_train_local r category = Some loc" and "name \<notin> dom loc"
    and "obs_train r category = Some tr" and "obs_dev r category = Some dv"
  shows "(let res = run [Add [(k, Some (Fin a1))] False, Step False,
                         Add [(k, Some (Fin a2))] False, Step False,
                         Add [(k, Some (Fin a3))] False, Step False,
                         Add [(k, Some vd)] True] r;
              r4 = fst res; r5 = step True r4
          in snd res = None \<and>
             obs_train r4 category = Some (append_to tr name (Fin ((a1 + a2 + a3) / 3))) \<and>
             obs_dev r4 category = Some (append_to dv name vd) \<and>
             steps r4 = steps r \<and>
             steps r5 = steps r @ [step_cnt r + 4] \<and>
             obs_train_local r5 = empty_obs \<and>
             obs_train r5 = obs_train r4 \<and> obs_dev r5 = obs_dev r4)"
proof -
  define r1 where "r1 = step False (fst (add_item k (Some (Fin a1)) False r))"
  define r2 where "r2 = step False (fst (add_item k (Some (Fin a2)) False r1))"
  define r3 where "r3 = step False (fst (add_item k (Some (Fin a3)) False r2))"
  have l0: "loc name = None"
    using assms(3) by (simp add: domIff)
  have a1: "add_item k (Some (Fin a1)) False r =
              (r\<lparr>obs_train_local := (obs_train_local r)(category \<mapsto> loc(name \<mapsto> [Fin a1]))\<rparr>, None)"
    using assms(1,2) l0 by (simp add: add_item_train append_to_def values_of_def)
  have f1: "obs_train_local r1 category = Some (loc(name \<mapsto> [Fin a1]))"
      "obs_train r1 = obs_train r" "obs_dev r1 = obs_dev r" "steps r1 = steps r"
      "step_cnt r1 = step_cnt r + 1"
    by (simp_all add: r1_def a1)
  have a2: "add_item k (Some (Fin a2)) False r1 =
              (r1\<lparr>obs_train_local :=
                     (obs_train_local r1)(category \<mapsto> loc(name \<mapsto> [Fin a1, Fin a2]))\<rparr>, None)"
    by (simp add: add_item_train [OF assms(1) f1(1)] append_to_def values_of_def)
  have f2: "obs_train_local r2 category = Some (loc(name \<mapsto> [Fin a1, Fin a2]))"
      "obs_train r2 = obs_train r" "obs_dev r2 = obs_dev r" "steps r2 = steps r"
      "step_cnt r2 = step_cnt r + 2"
    by (simp_all add: r2_def a2 f1)
  have a3: "add_item k (Some (Fin a3)) False r2 =
              (r2\<lparr>obs_train_local :=
                     (obs_train_local r2)(category \<mapsto> loc(name \<mapsto> [Fin a1, Fin a2, Fin a3]))\<rparr>,
               None)"
    by (simp add: add_item_train [OF assms(1) f2(1)] append_to_def values_of_def)
  have f3: "obs_train_local r3 category = Some (loc(name \<mapsto> [Fin a1, Fin a2, Fin a3]))"
      "obs_train r3 = obs_train r" "obs_dev r3 = obs_dev r" "steps r3 = steps r"
      "step_cnt r3 = step_cnt r + 3"
    by (simp_all add: r3_def a3 f2)
  have tr3: "obs_train r3 category = Some tr" and dv3: "obs_dev r3 category = Some dv"
    using assms(4,5) by (simp_all add: f3)
  have n3: "(loc(name \<mapsto> [Fin a1, Fin a2, Fin a3])) name = Some [Fin a1, Fin a2, Fin a3]"
    by simp
  note e = add_item_eval [OF assms(1) tr3 f3(1) n3 dv3, of vd]
  have run_eq: "run [Add [(k, Some (Fin a1))] False, Step False,
                     Add [(k, Some (Fin a2))] False, Step False,
                     Add [(k, Some (Fin a3))] False, Step False,
                     Add [(k, Some vd)] True] r = add_item k (Some vd) True r3"
  proof -
    have s1: "add [(k, Some (Fin a1))] False r = (fst (add_item k (Some (Fin a1)) False r), None)"
      by (simp add: a1)
    have s2: "add [(k, Some (Fin a2))] False r1 = (fst (add_item k (Some (Fin a2)) False r1), None)"
      by (simp add: a2)
    have s3: "add [(k, Some (Fin a3))] False r2 = (fst (add_item k (Some (Fin a3)) False r2), None)"
      by (simp add: a3)
    have s4: "add [(k, Some vd)] True r3 = add_item k (Some vd) True r3"
      by (rule add_single)
    show ?thesis
      by (simp only: run.simps s1 prod.case option.case r1_def [symmetric] s2
            r2_def [symmetric] s3 r3_def [symmetric] s4 e)
  qed
  show ?thesis
    unfolding Let_def run_eq
    by (simp add: e np_mean_three step_eval_fields f3)
qed

theorem reporter_train_mean_on_eval_witness:
  "split_on CHR ''.'' ''loss.ctc'' = [''loss'', ''ctc''] \<and>
   obs_train_local reporter0 ''loss'' = Some Map.empty \<and>
   ''ctc'' \<notin> dom (Map.empty :: string \<rightharpoonup> pyfloat list) \<and>
   obs_train reporter0 ''loss'' = Some Map.empty \<and>
   obs_dev reporter0 ''loss'' = Some Map.empty \<and>
   (let res = run [Add [(''loss.ctc'', Some (Fin 1))] False, Step False,
                   Add [(''loss.ctc'', Some (Fin 2))] False, Step False,
                   Add [(''loss.ctc'', Some (Fin 3))] False, Step False,
                   Add [(''loss.ctc'', Some (Fin 5))] True] reporter0;
        r4 = fst res; r5 = step True r4
    in snd res = None \<and>
       obs_train r4 ''loss'' = Some [''ctc'' \<mapsto> [Fin 2]] \<and>
       obs_dev r4 ''loss'' = Some [''ctc'' \<mapsto> [Fin 5]] \<and>
       steps r4 = [] \<and> steps r5 = [4] \<and>
       obs_train_local r5 = empty_obs \<and>
       obs_train r5 = obs_train r4 \<and> obs_dev r5 = obs_dev r4)"
proof -
  have h: "split_on CHR ''.'' ''loss.ctc'' = [''loss'', ''ctc'']"
      "obs_train_local reporter0 ''loss'' = Some Map.empty"
      "''ctc'' \<notin> dom (Map.empty :: string \<rightharpoonup> pyfloat list)"
      "obs_train reporter0 ''loss'' = Some Map.empty"
      "obs_dev reporter0 ''loss'' = Some Map.empty"
    by (simp_all add: reporter0_def Reporter_init_def empty_obs_def)
  have s: "steps reporter0 = []" "step_cnt reporter0 = 0"
    by (simp_all add: reporter0_def Reporter_init_def)
  show ?thesis
    using h reporter_train_mean_on_eval [OF h, of 1 2 3 "Fin 5"]
    by (simp add: s append_to_def values_of_def Let_def)
qed

text \<open>
  C10: \<open>add\<close> with \<open>is_eval=True\<close> for a name that is absent from the local training
  buffer raises \<open>KeyError\<close> and stores no dev value; it is accepted exactly when the
  name is in the buffer, and after \<open>step(is_eval=True)\<close>, which clears the buffer, it
  raises until a training value of that name is recorded again.
\<close>

theorem add_eval_requires_buffered_train:
  assumes "split_on CHR ''.'' k = [category, name]"
    and "obs_train r category = Some tr" and "obs_train_local r category = Some loc"
    and "obs_dev r category = Some dv"
  shows "snd (add [(k, Some v)] True r) = (if name \<in> dom loc then None else Some (KeyError name)) \<and>
         (name \<notin> dom loc \<longrightarrow> obs_dev (fst (add [(k, Some v)] True r)) = obs_dev r) \<and>
         (name \<in> dom loc \<longrightarrow>
            obs_dev (fst (add [(k, Some v)] True r)) category = Some (append_to dv name v)) \<and>
         (category \<in> {''loss'', ''acc'', ''ppl''} \<longrightarrow>
            snd (add [(k, Some v)] True (step True r)) = Some (KeyError name) \<and>
            obs_dev (fst (add [(k, Some v)] True (step True r))) = obs_dev r)"
proof (intro conjI impI)
  show "snd (add [(k, Some v)] True r) = (if name \<in> dom loc then None else Some (KeyError name))"
  proof (cases "loc name")
    case None
    with assms show ?thesis
      by (simp add: add_single add_item_eval_missing domIff del: add.simps)
  next
    case (Some xs)
    with assms show ?thesis
      by (simp add: add_single add_item_eval domIff del: add.simps)
  qed
next
  assume "name \<notin> dom loc"
  then have "loc name = None" by (simp add: domIff)
  with assms show "obs_dev (fst (add [(k, Some v)] True r)) = obs_dev r"
    by (simp add: add_single add_item_eval_missing del: add.simps)
next
  assume "name \<in> dom loc"
  then obtain xs where "loc name = Some xs" by auto
  with assms show "obs_dev (fst (add [(k, Some v)] True r)) category = Some (append_to dv name v)"
    by (simp add: add_single add_item_eval del: add.simps)
next
  assume c: "category \<in> {''loss'', ''acc'', ''ppl''}"
  then have l: "obs_train_local (step True r) category = Some Map.empty"
    by (auto simp: step_eval_fields empty_obs_def)
  have t: "obs_train (step True r) category = Some tr"
    using assms(2) by (simp add: step_eval_fields)
  note m = add_item_eval_missing [OF assms(1) t l, of v]
  show "snd (add [(k, Some v)] True (step True r)) = Some (KeyError name)"
    by (simp add: add_single m del: add.simps)
  show "obs_dev (fst (add [(k, Some v)] True (step True r))) = obs_dev r"
    by (simp add: add_single m step_eval_fields del: add.simps)
qed

theorem add_eval_requires_buffered_train_witness:
  "split_on CHR ''.'' ''loss.ctc'' = [''loss'', ''ctc''] \<and>
   obs_train reporter0 ''loss'' = Some Map.empty \<and>
   obs_train_local reporter0 ''loss'' = Some Map.empty \<and>
   obs_dev reporter0 ''loss'' = Some Map.empty \<and>
   ''ctc'' \<notin> dom (Map.empty :: string \<rightharpoonup> pyfloat list) \<and>
   ''loss'' \<in> {''loss'', ''acc'', ''ppl''} \<and>
   snd (add [(''loss.ctc'', Some (Fin 5))] True reporter0) = Some (KeyError ''ctc'') \<and>
   obs_dev (fst (add [(''loss.ctc'', Some (Fin 5))] True reporter0)) = obs_dev reporter0 \<and>
   snd (add [(''loss.ctc'', Some (Fin 5))] True (step True reporter0)) = Some (KeyError ''ctc'')"
proof -
  have h: "split_on CHR ''.'' ''loss.ctc'' = [''loss'', ''ctc'']"
      "obs_train reporter0 ''loss'' = Some Map.empty"
      "obs_train_local reporter0 ''loss'' = Some Map.empty"
      "obs_dev reporter0 ''loss'' = Some Map.empty"
    by (simp_all add: reporter0_def Reporter_init_def empty_obs_def)
  show ?thesis
    using h add_eval_requires_buffered_train [OF h, of "Fin 5"] by (simp del: add.simps)
qed

lemma add_item_error_independent:
  "snd (add_item k (Some v) is_eval r) = snd (add_item k (Some w) is_eval r)"
  by (simp add: add_item_def Let_def split: list.splits option.splits)

text \<open>
  C8: an infinite value makes \<open>add\<close> log the warning and nothing else: it raises exactly
  when a finite value would, and the value is stored as any other, in the local buffer
  on a training step and in the dev history on an evaluation step.
\<close>

theorem add_inf_warns_and_stores:
  assumes "v = PInf \<or> v = NInf"
  shows "snd (add [(k, Some v)] is_eval r) = snd (add [(k, Some (Fin x))] is_eval r) \<and>
         (split_on CHR ''.'' k = [category, name] \<and> obs_train_local r category = Some loc \<longrightarrow>
            add [(k, Some v)] False r =
              (r\<lparr>obs_train_local := (obs_train_local r)(category \<mapsto> append_to loc name v),
                  logged := logged r @
                    [Warning (''WARNING: received an inf loss for '' @ k @ ''.'')]\<rparr>, None)) \<and>
         (split_on CHR ''.'' k = [category, name] \<and> obs_train r category = Some tr \<and>
          obs_train_local r category = Some loc \<and> loc name = Some xs \<and>
          obs_dev r category = Some dv \<longrightarrow>
            snd (add [(k, Some v)] True r) = None \<and>
            obs_train (fst (add [(k, Some v)] True r)) category
              = Some (append_to tr name (np_mean xs)) \<and>
            obs_dev (fst (add [(k, Some v)] True r)) category = Some (append_to dv name v) \<and>
            logged (fst (add [(k, Some v)] True r))
              = logged r @ [Warning (''WARNING: received an inf loss for '' @ k @ ''.''),
                            Info (k @ '' (train, mean)'') (np_mean xs),
                            Info (k @ '' (dev)'') v])"
proof (intro conjI impI)
  show "snd (add [(k, Some v)] is_eval r) = snd (add [(k, Some (Fin x))] is_eval r)"
    by (simp only: add_single add_item_error_independent [of k v is_eval r "Fin x"])
next
  assume "split_on CHR ''.'' k = [category, name] \<and> obs_train_local r category = Some loc"
  then show "add [(k, Some v)] False r =
              (r\<lparr>obs_train_local := (obs_train_local r)(category \<mapsto> append_to loc name v),
                  logged := logged r @
                    [Warning (''WARNING: received an inf loss for '' @ k @ ''.'')]\<rparr>, None)"
    using assms by (simp add: add_single add_item_train warned_def del: add.simps)
next
  assume h: "split_on CHR ''.'' k = [category, name] \<and> obs_train r category = Some tr \<and>
          obs_train_local r category = Some loc \<and> loc name = Some xs \<and>
          obs_dev r category = Some dv"
  then have e: "add [(k, Some v)] True r =
     ((warned k v r)
        \<lparr>tf_writer := (if tensorboard r
                        then tf_writer r @ [(''dev/'' @ category @ ''/'' @ name, v, step_cnt r)]
                        else tf_writer r),
         obs_train := (obs_train r)(category \<mapsto> append_to tr name (np_mean xs)),
         obs_dev := (obs_dev r)(category \<mapsto> append_to dv name v),
         logged := logged (warned k v r) @
                     [Info (k @ '' (train, mean)'') (np_mean xs), Info (k @ '' (dev)'') v]\<rparr>,
      None)"
    by (simp add: add_single add_item_eval del: add.simps)
  show "snd (add [(k, Some v)] True r) = None"
    and "obs_train (fst (add [(k, Some v)] True r)) category
              = Some (append_to tr name (np_mean xs))"
    and "obs_dev (fst (add [(k, Some v)] True r)) category = Some (append_to dv name v)"
    and "logged (fst (add [(k, Some v)] True r))
              = logged r @ [Warning (''WARNING: received an inf loss for '' @ k @ ''.''),
                            Info (k @ '' (train, mean)'') (np_mean xs),
                            Info (k @ '' (dev)'') v]"
    using assms by (simp_all add: e warned_def del: add.simps)
qed

theorem add_inf_warns_and_stores_witness:
  "snd (add [(''loss.ctc'', Some PInf)] False reporter0)
     = snd (add [(''loss.ctc'', Some (Fin 0))] False reporter0) \<and>
   split_on CHR ''.'' ''loss.ctc'' = [''loss'', ''ctc''] \<and>
   obs_train_local reporter0 ''loss'' = Some Map.empty \<and>
   add [(''loss.ctc'', Some PInf)] False reporter0 =
     (reporter0\<lparr>obs_train_local := (obs_train_local reporter0)(''loss'' \<mapsto> [''ctc'' \<mapsto> [PInf]]),
                logged := [Warning ''WARNING: received an inf loss for loss.ctc.'']\<rparr>, None) \<and>
   obs_train reporter1 ''loss'' = Some Map.empty \<and>
   obs_train_local reporter1 ''loss'' = Some [''ctc'' \<mapsto> [Fin 1]] \<and>
   obs_dev reporter1 ''loss'' = Some Map.empty \<and>
   snd (add [(''loss.ctc'', Some NInf)] True reporter1) = None \<and>
   obs_train (fst (add [(''loss.ctc'', Some NInf)] True reporter1)) ''loss''
     = Some [''ctc'' \<mapsto> [Fin 1]] \<and>
   obs_dev (fst (add [(''loss.ctc'', Some NInf)] True reporter1)) ''loss''
     = Some [''ctc'' \<mapsto> [NInf]] \<and>
   logged (fst (add [(''loss.ctc'', Some NInf)] True reporter1))
     = [Warning ''WARNING: received an inf loss for loss.ctc.'',
        Info ''loss.ctc (train, mean)'' (Fin 1), Info ''loss.ctc (dev)'' NInf]"
proof -
  have h: "split_on CHR ''.'' ''loss.ctc'' = [''loss'', ''ctc'']"
      "obs_train_local reporter0 ''loss'' = Some Map.empty"
    by (simp_all add: reporter0_def Reporter_init_def empty_obs_def)
  have l: "logged reporter0 = []"
    by (simp add: reporter0_def Reporter_init_def)
  have r1: "reporter1 = reporter0\<lparr>obs_train_local :=
                (obs_train_local reporter0)(''loss'' \<mapsto> [''ctc'' \<mapsto> [Fin 1]])\<rparr>"
    unfolding reporter1_def
    by (simp add: add_item_train [OF h] append_to_def values_of_def)
  have g: "obs_train reporter1 ''loss'' = Some Map.empty"
      "obs_train_local reporter1 ''loss'' = Some [''ctc'' \<mapsto> [Fin 1]]"
      "obs_dev reporter1 ''loss'' = Some Map.empty"
      "logged reporter1 = []"
    by (simp_all add: r1) (simp_all add: reporter0_def Reporter_init_def empty_obs_def)
  have i: "PInf = PInf \<or> PInf = NInf" "NInf = PInf \<or> NInf = NInf"
    by simp_all
  note t = add_inf_warns_and_stores [OF i(1), where k = "''loss.ctc''" and is_eval = False
      and r = reporter0 and x = 0 and category = "''loss''" and name = "''ctc''"
      and loc = Map.empty]
  note u = add_inf_warns_and_stores [OF i(2), where k = "''loss.ctc''" and is_eval = True
      and r = reporter1 and x = 0 and category = "''loss''" and name = "''ctc''"
      and loc = "[''ctc'' \<mapsto> [Fin 1]]" and tr = Map.empty and dv = Map.empty
      and xs = "[Fin 1]"]
  note t' = t [THEN conjunct2, THEN conjunct1]
  note u' = u [THEN conjunct2, THEN conjunct2]
  from t' h have a: "add [(''loss.ctc'', Some PInf)] False reporter0 =
     (reporter0\<lparr>obs_train_local := (obs_train_local reporter0)(''loss'' \<mapsto> [''ctc'' \<mapsto> [PInf]]),
                logged := [Warning ''WARNING: received an inf loss for loss.ctc.'']\<rparr>, None)"
    by (simp add: l append_to_def values_of_def del: add.simps)
  from t have b: "snd (add [(''loss.ctc'', Some PInf)] False reporter0)
     = snd (add [(''loss.ctc'', Some (Fin 0))] False reporter0)"
    by (rule conjunct1)
  from u' h g have c: "snd (add [(''loss.ctc'', Some NInf)] True reporter1) = None"
      "obs_train (fst (add [(''loss.ctc'', Some NInf)] True reporter1)) ''loss''
         = Some [''ctc'' \<mapsto> [Fin 1]]"
      "obs_dev (fst (add [(''loss.ctc'', Some NInf)] True reporter1)) ''loss''
         = Some [''ctc'' \<mapsto> [NInf]]"
      "logged (fst (add [(''loss.ctc'', Some NInf)] True reporter1))
         = [Warning ''WARNING: received an inf loss for loss.ctc.'',
            Info ''loss.ctc (train, mean)'' (Fin 1), Info ''loss.ctc (dev)'' NInf]"
    by (simp_all add: append_to_def values_of_def np_mean_def del: add.simps)
  from h g a b c show ?thesis
    by (intro conjI)
qed

section \<open>Properties of the scorer\<close>












section \<open>Properties of the dataset loader\<close>

lemma dataset_path_of_shuffle: "dataset_path_of (a\<lparr>arg_shuffle := s\<rparr>) = dataset_path_of a"
  by (simp add: dataset_path_of_def Let_def)

text \<open>
  C6, as stated: constructing a dataset with \<open>shuffle=True\<close> and \<open>sort_utt=True\<close>
  raises. With a manifest that loads, the constructor returns the dataset.
\<close>

theorem Dataset_init_shuffle_sort_counterexample:
  "arg_shuffle args0 \<and> arg_sort_utt args0 \<and> Dataset_init env0 args0 = Inr dataset0"
  by (simp add: args0_def env0_def dataset0_def rows0_def Dataset_init_def dataset_path_of_def
        Let_def atLeast0LessThan)

text \<open>
  C6, amended: the constructor inspects neither \<open>shuffle\<close> nor \<open>sort_utt\<close> for validity.
  With \<open>shuffle\<close> changed it returns the same error, or the same dataset up to the
  stored flag; whatever the values of the two flags, it raises the same error or none;
  on success both flags are stored as given.
\<close>

theorem Dataset_init_shuffle_sort:
  "Dataset_init env (a\<lparr>arg_shuffle := s\<rparr>)
     = map_sum id (shuffle_update (\<lambda>old. s)) (Dataset_init env a) \<and>
   raised (Dataset_init env (a\<lparr>arg_shuffle := s, arg_sort_utt := t\<rparr>))
     = raised (Dataset_init env a) \<and>
   (Dataset_init env a = Inr d \<longrightarrow> shuffle d = arg_shuffle a \<and> sort_utt d = arg_sort_utt a)"
proof (intro conjI impI)
  show "Dataset_init env (a\<lparr>arg_shuffle := s\<rparr>)
          = map_sum id (shuffle_update (\<lambda>old. s)) (Dataset_init env a)"
    by (simp add: Dataset_init_def dataset_path_of_shuffle Let_def
          split: option.splits sum.splits)
next
  have "dataset_path_of (a\<lparr>arg_shuffle := s, arg_sort_utt := t\<rparr>) = dataset_path_of a"
    by (simp add: dataset_path_of_def Let_def)
  then show "raised (Dataset_init env (a\<lparr>arg_shuffle := s, arg_sort_utt := t\<rparr>))
               = raised (Dataset_init env a)"
    by (simp add: Dataset_init_def raised_def Let_def split: option.splits sum.splits)
next
  assume d: "Dataset_init env a = Inr d"
  then show "shuffle d = arg_shuffle a" and "sort_utt d = arg_sort_utt a"
    by (auto simp: Dataset_init_def Let_def split: option.splits sum.splits)
qed

theorem Dataset_init_shuffle_sort_witness:
  "Dataset_init env0 args0 = Inr dataset0 \<and>
   shuffle dataset0 = arg_shuffle args0 \<and> sort_utt dataset0 = arg_sort_utt args0 \<and>
   arg_shuffle args0 \<and> arg_sort_utt args0 \<and>
   Dataset_init env0 (args0\<lparr>arg_shuffle := False\<rparr>) = Inr (dataset0\<lparr>shuffle := False\<rparr>) \<and>
   raised (Dataset_init env0 (args0\<lparr>arg_shuffle := False, arg_sort_utt := False\<rparr>)) = None"
proof -
  have i: "Dataset_init env0 args0 = Inr dataset0"
    by (simp add: args0_def env0_def dataset0_def rows0_def Dataset_init_def dataset_path_of_def
        Let_def atLeast0LessThan)
  have f: "arg_shuffle args0" "arg_sort_utt args0"
    by (simp_all add: args0_def)
  show ?thesis
    using i f Dataset_init_shuffle_sort [where env = env0 and a = args0 and s = False
        and t = False and d = dataset0]
    by (simp add: raised_def)
qed


end
